theory Spec2Isabelle
  imports Main
begin

section \<open>Change records of adc: pkg/data/events.go\<close>

text \<open>
  The file events.go defines the change record \<open>Event\<close>, its description \<open>Output\<close> and its
  application \<open>Apply\<close> to a remote cluster. The functions below follow the Go text case by
  case. Three things the Go code leaves implicit are written out:
  \<^item> a panic (a failed type assertion, a reflective field access on something that is not a
    struct) is the value \<open>Panics\<close>;
  \<^item> the calls made on the sub-clients of the cluster are returned as a list, next to the
    result;
  \<^item> the packages the code imports (encoding/json, gotextdiff, the cluster client) are
    parameters of the functions that use them.
\<close>

subsection \<open>Go values as the code inspects them\<close>

text \<open>
  \<open>OldValue\<close> and \<open>Value\<close> have the type \<open>interface{}\<close>. The code looks at such a value in
  three ways: by reflection (\<open>getName\<close>), by a type assertion to a pointer to a resource
  struct, and by handing it to the JSON encoder. A struct is its type name and the fields
  that \<open>FieldByName\<close> finds in it, its own and the ones promoted from embedded structs. A
  field is of kind string, or of another kind, then only its type name matters (that is
  all \<open>reflect.Value.String\<close> shows of it), or it is promoted through an embedded pointer
  that is nil, then it cannot be reached.
\<close>

datatype field = StrField string | NonStrField string | NilEmbedded

type_synonym fields = "(string \<times> field) list"

datatype iface =
    NilIface
  | StructV string fields
  | PtrV string "fields option"
  | PtrOtherV string
  | OtherV string

text \<open>
  \<open>NilIface\<close> is the nil interface, \<open>StructV T fs\<close> a struct of type \<open>T\<close>, \<open>PtrV T (Some fs)\<close> a
  pointer to one, \<open>PtrV T None\<close> the nil pointer of type \<open>*T\<close>, \<open>PtrOtherV d\<close> a pointer to
  something that is not a struct, and \<open>OtherV d\<close> any other value (a map, a number, a
  channel), \<open>d\<close> being its type.
\<close>

datatype 'a result = Panics | Returns 'a

text \<open>What package reflect shows of a value.\<close>

datatype rvalue =
    Invalid
  | RStruct string fields
  | RPtr string "fields option"
  | RPtrOther string
  | RString string
  | ROther string

datatype kind = KInvalid | KStruct | KPtr | KString | KOther

fun ValueOf :: "iface \<Rightarrow> rvalue" where
  "ValueOf NilIface = Invalid"
| "ValueOf (StructV T fs) = RStruct T fs"
| "ValueOf (PtrV T p) = RPtr T p"
| "ValueOf (PtrOtherV d) = RPtrOther d"
| "ValueOf (OtherV d) = ROther d"

fun Kind :: "rvalue \<Rightarrow> kind" where
  "Kind Invalid = KInvalid"
| "Kind (RStruct T fs) = KStruct"
| "Kind (RPtr T p) = KPtr"
| "Kind (RPtrOther d) = KPtr"
| "Kind (RString s) = KString"
| "Kind (ROther d) = KOther"

text \<open>
  \<open>Elem\<close> of a nil pointer is the zero Value; the code calls it on pointers only. The
  pointee of a pointer to something that is not a struct is kept as \<open>ROther\<close>: nil or not,
  \<open>FieldByName\<close> panics on it.
\<close>

fun Elem :: "rvalue \<Rightarrow> rvalue result" where
  "Elem (RPtr T None) = Returns Invalid"
| "Elem (RPtr T (Some fs)) = Returns (RStruct T fs)"
| "Elem (RPtrOther d) = Returns (ROther d)"
| "Elem v = Panics"

text \<open>
  Reading a field of a struct (\<open>FieldByIndex\<close>) panics when the way to it goes through a nil
  embedded pointer.
\<close>

fun field_value :: "field \<Rightarrow> rvalue result" where
  "field_value (StrField s) = Returns (RString s)"
| "field_value (NonStrField T) = Returns (ROther T)"
| "field_value NilEmbedded = Panics"

text \<open>
  \<open>FieldByName\<close> panics unless the value is a struct; a struct without that field gives the
  zero Value.
\<close>

fun FieldByName :: "rvalue \<Rightarrow> string \<Rightarrow> rvalue result" where
  "FieldByName (RStruct T fs) name =
     (case map_of fs name of None \<Rightarrow> Returns Invalid | Some f \<Rightarrow> field_value f)"
| "FieldByName v name = Panics"

text \<open>\<open>String\<close> never panics: on a value that is not a string it prints the type.\<close>

fun String :: "rvalue \<Rightarrow> string" where
  "String (RString s) = s"
| "String Invalid = ''<invalid Value>''"
| "String (RStruct T fs) = ''<'' @ T @ '' Value>''"
| "String (RPtr T p) = ''<*'' @ T @ '' Value>''"
| "String (RPtrOther d) = ''<*'' @ d @ '' Value>''"
| "String (ROther d) = ''<'' @ d @ '' Value>''"

definition getName :: "string \<Rightarrow> iface \<Rightarrow> string result" where
  "getName fld val =
     (let v = ValueOf val in
      case (if Kind v = KPtr then Elem v else Returns v) of
        Panics \<Rightarrow> Panics
      | Returns v' \<Rightarrow>
          (case FieldByName v' fld of
             Panics \<Rightarrow> Panics
           | Returns f \<Rightarrow> Returns (String f)))"

subsection \<open>The change record\<close>

text \<open>
  The two resource types are package variables that this file never assigns; they are
  taken at their initial values. The options are the constants 0, 1 and 2 of an iota
  block; \<open>Option\<close> itself is a Go int and can hold any other number.
\<close>

definition ServiceResourceType :: string where
  "ServiceResourceType = ''service''"

definition RouteResourceType :: string where
  "RouteResourceType = ''route''"

definition CreateOption :: int where "CreateOption = 0"
definition DeleteOption :: int where "DeleteOption = 1"
definition UpdateOption :: int where "UpdateOption = 2"

record Event =
  ResourceType :: string
  Option :: int
  OldValue :: iface
  Value :: iface

subsection \<open>Errors\<close>

text \<open>
  An error is a message, or (\<open>errors.Wrap\<close> of github.com/pkg/errors) an error wrapped with
  a message: the cause stays inside. \<open>Wrap\<close> of nil is nil.
\<close>

datatype error = Err string | Wrapped error string

fun Wrap :: "error option \<Rightarrow> string \<Rightarrow> error option" where
  "Wrap None msg = None"
| "Wrap (Some cause) msg = Some (Wrapped cause msg)"

fun Cause :: "error \<Rightarrow> error" where
  "Cause (Err m) = Err m"
| "Cause (Wrapped c msg) = Cause c"

fun Error :: "error \<Rightarrow> string" where
  "Error (Err m) = m"
| "Error (Wrapped c msg) = msg @ '': '' @ Error c"

subsection \<open>Describing a record: Output\<close>

text \<open>
  The imported functions \<open>Output\<close> calls: \<open>json.MarshalIndent\<close>, \<open>span.URIFromPath\<close>,
  \<open>myers.ComputeEdits\<close>, \<open>gotextdiff.ToUnified\<close> and \<open>fmt.Sprint\<close> of a unified diff.
\<close>

record ('uri, 'edit, 'unified) libs =
  MarshalIndent :: "iface \<Rightarrow> string \<Rightarrow> string \<Rightarrow> error + string"
  URIFromPath :: "string \<Rightarrow> 'uri"
  ComputeEdits :: "'uri \<Rightarrow> string \<Rightarrow> string \<Rightarrow> 'edit list"
  ToUnified :: "string \<Rightarrow> string \<Rightarrow> string \<Rightarrow> 'edit list \<Rightarrow> 'unified"
  Sprint :: "'unified \<Rightarrow> string"

abbreviation dquote :: char where "dquote \<equiv> CHR 0x22"
abbreviation newline :: char where "newline \<equiv> CHR 0x0A"
abbreviation tab :: char where "tab \<equiv> CHR 0x09"

text \<open>
  The result is the pair the Go function returns, the text and the error (\<open>None\<close> is nil).
\<close>

definition Output :: "('uri, 'edit, 'unified) libs \<Rightarrow> Event \<Rightarrow> (string \<times> error option) result" where
  "Output L e =
     (if Option e = CreateOption then
        (case getName ''Name'' (Value e) of
           Panics \<Rightarrow> Panics
         | Returns n \<Rightarrow>
             Returns (''creating '' @ ResourceType e @ '': '' @ [dquote] @ n @ [dquote], None))
      else if Option e = DeleteOption then
        (case getName ''Name'' (OldValue e) of
           Panics \<Rightarrow> Panics
         | Returns n \<Rightarrow>
             Returns (''deleting '' @ ResourceType e @ '': '' @ [dquote] @ n @ [dquote], None))
      else if Option e = UpdateOption then
        (case MarshalIndent L (OldValue e) [] [tab] of
           Inl err \<Rightarrow> Returns ([], Some err)
         | Inr remote0 \<Rightarrow>
             (let remote = remote0 @ [newline] in
              case MarshalIndent L (Value e) [] [tab] of
                Inl err \<Rightarrow> Returns ([], Some err)
              | Inr local0 \<Rightarrow>
                  (let local = local0 @ [newline];
                       edits = ComputeEdits L (URIFromPath L ''remote'') remote local;
                       diff = Sprint L (ToUnified L ''remote'' ''local'' remote edits)
                   in case getName ''Name'' (Value e) of
                        Panics \<Rightarrow> Panics
                      | Returns n \<Rightarrow>
                          Returns (''updating '' @ ResourceType e @ '': '' @ [dquote] @ n
                                     @ [dquote] @ [newline] @ diff, None))))
      else Returns ([], None))"

subsection \<open>Applying a record: Apply\<close>

text \<open>
  The cluster has one sub-client for services and one for routes, each with Create, Delete
  (by name) and Update. A cluster is what it answers to each call: an error or nil.
\<close>

datatype subclient = Service | Route

datatype call =
    Create subclient iface
  | Delete subclient string
  | Update subclient iface

type_synonym cluster = "call \<Rightarrow> error option"

definition ServiceT :: string where "ServiceT = ''types.Service''"
definition RouteT :: string where "RouteT = ''types.Route''"

text \<open>
  The type assertion \<open>value.(*types.T)\<close>: it panics unless the value is a pointer to \<open>T\<close>
  (the nil pointer of that type passes).
\<close>

fun assertPtr :: "string \<Rightarrow> iface \<Rightarrow> iface result" where
  "assertPtr T (PtrV T' p) = (if T' = T then Returns (PtrV T' p) else Panics)"
| "assertPtr T v = Panics"

text \<open>The calls made, and what the function does: it panics, or returns an error or nil.\<close>

type_synonym applied = "call list \<times> error option result"

definition applyService :: "cluster \<Rightarrow> int \<Rightarrow> iface \<Rightarrow> applied" where
  "applyService cl opt val =
     (if opt = CreateOption then
        (case assertPtr ServiceT val of
           Panics \<Rightarrow> ([], Panics)
         | Returns s \<Rightarrow>
             ([Create Service s], Returns (Wrap (cl (Create Service s)) ''failed to apply service'')))
      else if opt = DeleteOption then
        (case getName ''Name'' val of
           Panics \<Rightarrow> ([], Panics)
         | Returns n \<Rightarrow>
             ([Delete Service n], Returns (Wrap (cl (Delete Service n)) ''failed to apply service'')))
      else if opt = UpdateOption then
        (case assertPtr ServiceT val of
           Panics \<Rightarrow> ([], Panics)
         | Returns s \<Rightarrow> ([Update Service s], Returns (cl (Update Service s))))
      else ([], Returns (Wrap None ''failed to apply service'')))"

definition applyRoute :: "cluster \<Rightarrow> int \<Rightarrow> iface \<Rightarrow> applied" where
  "applyRoute cl opt val =
     (if opt = CreateOption then
        (case assertPtr RouteT val of
           Panics \<Rightarrow> ([], Panics)
         | Returns r \<Rightarrow>
             ([Create Route r], Returns (Wrap (cl (Create Route r)) ''failed to apply route'')))
      else if opt = DeleteOption then
        (case getName ''Name'' val of
           Panics \<Rightarrow> ([], Panics)
         | Returns n \<Rightarrow>
             ([Delete Route n], Returns (Wrap (cl (Delete Route n)) ''failed to apply route'')))
      else if opt = UpdateOption then
        (case assertPtr RouteT val of
           Panics \<Rightarrow> ([], Panics)
         | Returns r \<Rightarrow>
             ([Update Route r], Returns (Wrap (cl (Update Route r)) ''failed to apply route'')))
      else ([], Returns (Wrap None ''failed to apply route'')))"

definition Apply :: "cluster \<Rightarrow> Event \<Rightarrow> applied" where
  "Apply cl e =
     (if ResourceType e = ServiceResourceType then applyService cl (Option e) (Value e)
      else if ResourceType e = RouteResourceType then applyRoute cl (Option e) (Value e)
      else ([], Returns None))"

subsection \<open>Stand-ins for the imported packages\<close>

text \<open>
  Concrete collaborators on which the theorems below are run: an encoder that gives one
  line per field and refuses what is not a struct, a diff that replaces the whole text when
  the two texts differ, and clusters that answer every call alike. They stand for the
  imported packages in examples only; no general theorem depends on them.
\<close>

fun stub_field :: "string \<Rightarrow> string \<times> field \<Rightarrow> string" where
  "stub_field indent (k, StrField s) = indent @ k @ '': '' @ s @ [newline]"
| "stub_field indent (k, NonStrField T) = indent @ k @ '': <'' @ T @ ''>'' @ [newline]"
| "stub_field indent (k, NilEmbedded) = []"

fun stub_marshal :: "iface \<Rightarrow> string \<Rightarrow> string \<Rightarrow> error + string" where
  "stub_marshal NilIface prefix indent = Inr ''null''"
| "stub_marshal (StructV T fs) prefix indent =
     Inr (''{'' @ [newline] @ concat (map (stub_field (prefix @ indent)) fs) @ prefix @ ''}'')"
| "stub_marshal (PtrV T None) prefix indent = Inr ''null''"
| "stub_marshal (PtrV T (Some fs)) prefix indent =
     Inr (''{'' @ [newline] @ concat (map (stub_field (prefix @ indent)) fs) @ prefix @ ''}'')"
| "stub_marshal (PtrOtherV d) prefix indent = Inl (Err (''unsupported type: '' @ d))"
| "stub_marshal (OtherV d) prefix indent = Inl (Err (''unsupported type: '' @ d))"

definition stub_edits :: "string \<Rightarrow> string \<Rightarrow> string \<Rightarrow> (string \<times> string) list" where
  "stub_edits uri old_text new_text = (if old_text = new_text then [] else [(old_text, new_text)])"

fun stub_sprint :: "string \<times> string \<times> (string \<times> string) list \<Rightarrow> string" where
  "stub_sprint (from, to, []) = []"
| "stub_sprint (from, to, eds) =
     ''--- '' @ from @ [newline] @ ''+++ '' @ to @ [newline]
       @ concat (map (\<lambda>(a, b). ''-'' @ a @ ''+'' @ b) eds)"

definition stub_libs :: "(string, string \<times> string, string \<times> string \<times> (string \<times> string) list) libs" where
  "stub_libs =
     \<lparr>MarshalIndent = stub_marshal,
      URIFromPath = (\<lambda>p. ''file:///'' @ p),
      ComputeEdits = stub_edits,
      ToUnified = (\<lambda>from to content eds. (from, to, eds)),
      Sprint = stub_sprint\<rparr>"

definition ok_cluster :: cluster where
  "ok_cluster c = None"

definition failing_cluster :: cluster where
  "failing_cluster c = Some (Err ''boom'')"

definition svc :: "string \<Rightarrow> iface" where
  "svc n = PtrV ''types.Service'' (Some [(''ID'', StrField ''1''), (''Name'', StrField n)])"

definition rt :: "string \<Rightarrow> string \<Rightarrow> iface" where
  "rt n u = PtrV ''types.Route''
     (Some [(''ID'', StrField ''7''), (''Name'', StrField n), (''UpstreamID'', StrField u)])"

subsection \<open>The diff packages, modelled from the spec\<close>

text \<open>
  Modelled from the spec: the packages gotextdiff, gotextdiff/myers and gotextdiff/span
  are imported by events.go and their text is not part of it. The spec describes them as
  a line-based diff between the two texts by a longest-common-subsequence-style
  algorithm, rendered as a unified-diff text block with the labels \<open>remote\<close> and \<open>local\<close>, a
  standard format showing line-level insertions and deletions with minimal context. The
  definitions below follow these words; where the words leave a choice, the standard
  format is taken: three lines of context, a header \<open>@@ -l,n +l,n @@\<close> for each hunk, the
  prefixes \<open>-\<close>, \<open>+\<close> and a blank, and no text at all for a diff without a hunk.
\<close>

datatype opkind = Keep | Del | Ins

type_synonym line_edit = "opkind \<times> string"

text \<open>Modelled from the spec: the lines of a text, each with its line break.\<close>

fun split_lines :: "string \<Rightarrow> string list" where
  "split_lines [] = []"
| "split_lines (c # cs) =
     (if c = newline then [c] # split_lines cs
      else (case split_lines cs of [] \<Rightarrow> [[c]] | l # ls \<Rightarrow> (c # l) # ls))"

text \<open>
  Modelled from the spec: the line-based diff. A shortest script of kept, deleted and
  inserted lines, which keeps a longest common subsequence of the two texts.
\<close>

fun lcs_diff :: "string list \<Rightarrow> string list \<Rightarrow> line_edit list" where
  "lcs_diff [] ys = map (Pair Ins) ys"
| "lcs_diff (x # xs) [] = map (Pair Del) (x # xs)"
| "lcs_diff (x # xs) (y # ys) =
     (if x = y then (Keep, x) # lcs_diff xs ys
      else (let d = (Del, x) # lcs_diff xs (y # ys);
                i = (Ins, y) # lcs_diff (x # xs) ys
            in if length d \<le> length i then d else i))"

text \<open>
  Modelled from the spec: the hunks of a unified diff. A line belongs to a hunk when a
  deleted or inserted line is at most \<open>context_lines\<close> lines away; neighbouring such
  lines form one hunk, which starts at the line numbers of its first line in the old and
  in the new text.
\<close>

definition is_change :: "line_edit \<Rightarrow> bool" where
  "is_change ed = (fst ed \<noteq> Keep)"

definition context_lines :: nat where
  "context_lines = 3"

definition near_change :: "line_edit list \<Rightarrow> nat \<Rightarrow> bool" where
  "near_change es i =
     list_ex (\<lambda>j. is_change (es ! j) \<and> i \<le> j + context_lines \<and> j \<le> i + context_lines)
       [0..<length es]"

definition old_no :: "line_edit list \<Rightarrow> nat \<Rightarrow> nat" where
  "old_no es i = Suc (length (filter (\<lambda>ed. fst ed \<noteq> Ins) (take i es)))"

definition new_no :: "line_edit list \<Rightarrow> nat \<Rightarrow> nat" where
  "new_no es i = Suc (length (filter (\<lambda>ed. fst ed \<noteq> Del) (take i es)))"

record hunk =
  FromLine :: nat
  ToLine :: nat
  Lines :: "line_edit list"

type_synonym marked = "bool \<times> nat \<times> nat \<times> line_edit"

definition mark :: "line_edit list \<Rightarrow> marked list" where
  "mark es = map (\<lambda>i. (near_change es i, old_no es i, new_no es i, es ! i)) [0..<length es]"

function runs :: "marked list \<Rightarrow> marked list list" where
  "runs [] = []"
| "runs (m # ms) =
     (if fst m then (m # takeWhile fst ms) # runs (dropWhile fst ms) else runs ms)"
  by pat_completeness auto
termination
  by (relation "measure length") (auto simp: less_Suc_eq_le length_dropWhile_le)

fun to_hunk :: "marked list \<Rightarrow> hunk" where
  "to_hunk [] = \<lparr>FromLine = 0, ToLine = 0, Lines = []\<rparr>"
| "to_hunk ((b, old, new, ed) # ms) =
     \<lparr>FromLine = old, ToLine = new, Lines = ed # map (\<lambda>m. snd (snd (snd m))) ms\<rparr>"

definition hunks :: "line_edit list \<Rightarrow> hunk list" where
  "hunks es = map to_hunk (runs (mark es))"

text \<open>Modelled from the spec: the unified-diff text of the hunks.\<close>

fun digit :: "nat \<Rightarrow> char" where
  "digit n = (if n = 0 then CHR ''0'' else if n = 1 then CHR ''1'' else if n = 2 then CHR ''2''
     else if n = 3 then CHR ''3'' else if n = 4 then CHR ''4'' else if n = 5 then CHR ''5''
     else if n = 6 then CHR ''6'' else if n = 7 then CHR ''7'' else if n = 8 then CHR ''8''
     else CHR ''9'')"

fun decimal :: "nat \<Rightarrow> string" where
  "decimal n = (if n < 10 then [digit n] else decimal (n div 10) @ [digit (n mod 10)])"

fun render_line :: "line_edit \<Rightarrow> string" where
  "render_line (Keep, l) = CHR '' '' # l"
| "render_line (Del, l) = CHR ''-'' # l"
| "render_line (Ins, l) = CHR ''+'' # l"

definition render_hunk :: "hunk \<Rightarrow> string" where
  "render_hunk h =
     ''@@ -'' @ decimal (FromLine h) @ '','' @ decimal (length (filter (\<lambda>ed. fst ed \<noteq> Ins) (Lines h)))
       @ '' +'' @ decimal (ToLine h) @ '','' @ decimal (length (filter (\<lambda>ed. fst ed \<noteq> Del) (Lines h)))
       @ '' @@'' @ [newline] @ concat (map render_line (Lines h))"

record unified =
  From :: string
  To :: string
  Hunks :: "hunk list"

definition render :: "unified \<Rightarrow> string" where
  "render u =
     (if Hunks u = [] then []
      else ''--- '' @ From u @ [newline] @ ''+++ '' @ To u @ [newline]
             @ concat (map render_hunk (Hunks u)))"

text \<open>
  Modelled from the spec: the diff packages as \<open>Output\<close> uses them. The JSON encoder stays
  a parameter.
\<close>

definition spec_libs ::
  "(iface \<Rightarrow> string \<Rightarrow> string \<Rightarrow> error + string) \<Rightarrow> (string, line_edit, unified) libs" where
  "spec_libs marshal =
     \<lparr>MarshalIndent = marshal,
      URIFromPath = (\<lambda>p. p),
      ComputeEdits = (\<lambda>uri old_text new_text. lcs_diff (split_lines old_text) (split_lines new_text)),
      ToUnified = (\<lambda>from to content es. \<lparr>From = from, To = to, Hunks = hunks es\<rparr>),
      Sprint = render\<rparr>"

section \<open>Reading the name\<close>

lemma getName_struct:
  "map_of fs fld = Some (StrField n) \<Longrightarrow> getName fld (StructV T fs) = Returns n"
  by (simp add: getName_def)

lemma getName_ptr:
  "map_of fs fld = Some (StrField n) \<Longrightarrow> getName fld (PtrV T (Some fs)) = Returns n"
  by (simp add: getName_def)

lemma getName_named:
  assumes "v = PtrV T (Some fs) \<or> v = StructV T fs"
    and "map_of fs fld = Some (StrField n)"
  shows "getName fld v = Returns n"
  using assms by (auto simp: getName_struct getName_ptr)

lemma getName_nil: "getName fld NilIface = Panics"
  by (simp add: getName_def)

lemma getName_nil_ptr: "getName fld (PtrV T None) = Panics"
  by (simp add: getName_def)

lemma getName_nil_embedded:
  "map_of fs fld = Some NilEmbedded \<Longrightarrow> getName fld (StructV T fs) = Panics"
  by (simp add: getName_def)

lemma getName_other: "getName fld (OtherV d) = Panics" "getName fld (PtrOtherV d) = Panics"
  by (simp_all add: getName_def)

lemma options_distinct:
  "CreateOption \<noteq> DeleteOption" "CreateOption \<noteq> UpdateOption" "DeleteOption \<noteq> UpdateOption"
  "DeleteOption \<noteq> CreateOption" "UpdateOption \<noteq> CreateOption" "UpdateOption \<noteq> DeleteOption"
  by (simp_all add: CreateOption_def DeleteOption_def UpdateOption_def)

section \<open>Properties of Apply\<close>

text \<open>
  What \<open>Apply\<close> does with a Delete record, for either resource type: the name is read from
  \<open>Value\<close>, the field that \<open>Apply\<close> hands to the handler for every option.
\<close>

lemma Apply_delete_service:
  assumes "ResourceType e = ServiceResourceType" and "Option e = DeleteOption"
  shows "Apply cl e =
    (case getName ''Name'' (Value e) of
       Panics \<Rightarrow> ([], Panics)
     | Returns n \<Rightarrow>
         ([Delete Service n], Returns (Wrap (cl (Delete Service n)) ''failed to apply service'')))"
  using assms by (simp add: Apply_def applyService_def options_distinct)

lemma Apply_delete_route:
  assumes "ResourceType e = RouteResourceType" and "Option e = DeleteOption"
  shows "Apply cl e =
    (case getName ''Name'' (Value e) of
       Panics \<Rightarrow> ([], Panics)
     | Returns n \<Rightarrow>
         ([Delete Route n], Returns (Wrap (cl (Delete Route n)) ''failed to apply route'')))"
  using assms
  by (simp add: Apply_def applyRoute_def options_distinct ServiceResourceType_def
      RouteResourceType_def)

text \<open>A wrapped error keeps its cause, and its message starts with the one given.\<close>

lemma Cause_Wrap: "Wrap (Some c) msg = Some w \<Longrightarrow> Cause w = Cause c"
  by auto

lemma Error_Wrap: "Wrap (Some c) msg = Some w \<Longrightarrow> Error w = msg @ '': '' @ Error c"
  by auto

text \<open>
  Every path but one wraps the error of the call it made: the Update case of
  \<open>applyService\<close> returns before the wrapping.
\<close>

lemma Apply_wraps_except_service_update:
  assumes "ResourceType e = ServiceResourceType \<or> ResourceType e = RouteResourceType"
    and "\<not> (ResourceType e = ServiceResourceType \<and> Option e = UpdateOption)"
    and "Apply cl e = (cs, Returns r)"
    and "c \<in> set cs" and "cl c = Some cause"
  shows "cs = [c] \<and> r = Some (Wrapped cause
           (if ResourceType e = ServiceResourceType then ''failed to apply service''
            else ''failed to apply route''))"
  using assms
  by (auto simp: Apply_def applyService_def applyRoute_def ServiceResourceType_def
      RouteResourceType_def split: if_splits result.splits)

text \<open>
  C3. A record whose resource type is neither service nor route: \<open>Apply\<close> returns nil and
  calls no operation of any sub-client.
\<close>

theorem Apply_unknown_resource_type:
  assumes "ResourceType e \<noteq> ServiceResourceType"
    and "ResourceType e \<noteq> RouteResourceType"
  shows "Apply cl e = ([], Returns None)"
  using assms by (simp add: Apply_def)

theorem Apply_unknown_resource_type_witness:
  "ResourceType \<lparr>ResourceType = ''upstream'', Option = 0, OldValue = NilIface, Value = svc ''a''\<rparr>
     \<noteq> ServiceResourceType
   \<and> ResourceType \<lparr>ResourceType = ''upstream'', Option = 0, OldValue = NilIface, Value = svc ''a''\<rparr>
     \<noteq> RouteResourceType
   \<and> Apply failing_cluster
       \<lparr>ResourceType = ''upstream'', Option = 0, OldValue = NilIface, Value = svc ''a''\<rparr>
     = ([], Returns None)"
  using Apply_unknown_resource_type
    [of "\<lparr>ResourceType = ''upstream'', Option = 0, OldValue = NilIface, Value = svc ''a''\<rparr>"
        failing_cluster]
  by (simp add: ServiceResourceType_def RouteResourceType_def)

text \<open>
  C1. For a Delete record, \<open>Apply\<close> should call the delete-by-name operation of the matching
  sub-client with the name read from \<open>OldValue\<close>. The code reads the name from \<open>Value\<close>
  instead. On a Delete record that carries the remote resource in \<open>OldValue\<close> and nothing
  in \<open>Value\<close> it panics before any call is made, for services and for routes; when both
  fields hold a resource, the name deleted is the one in \<open>Value\<close>.
\<close>

theorem Apply_delete_takes_name_from_Value:
  "Apply ok_cluster
     \<lparr>ResourceType = ''service'', Option = 1, OldValue = svc ''svc-a'', Value = NilIface\<rparr>
     = ([], Panics)
   \<and> Apply ok_cluster
     \<lparr>ResourceType = ''service'', Option = 1, OldValue = svc ''svc-a'', Value = svc ''svc-b''\<rparr>
     = ([Delete Service ''svc-b''], Returns None)
   \<and> Apply ok_cluster
     \<lparr>ResourceType = ''route'', Option = 1, OldValue = rt ''r1'' ''1'', Value = NilIface\<rparr>
     = ([], Panics)"
  by (simp add: Apply_def applyService_def applyRoute_def getName_def svc_def rt_def
      ok_cluster_def ServiceResourceType_def RouteResourceType_def CreateOption_def
      DeleteOption_def UpdateOption_def)

text \<open>
  C2. When the call on the sub-client fails, \<open>Apply\<close> should return the error wrapped with
  the message of the resource type. For the Update of a service the code returns the
  error of the call as it is; the Update of a route, on the same answer of the cluster,
  returns it wrapped.
\<close>

theorem Apply_service_update_returns_bare_error:
  "Apply failing_cluster
     \<lparr>ResourceType = ''service'', Option = 2, OldValue = svc ''svc-a'', Value = svc ''svc-a''\<rparr>
     = ([Update Service (svc ''svc-a'')], Returns (Some (Err ''boom'')))
   \<and> Apply failing_cluster
     \<lparr>ResourceType = ''route'', Option = 2, OldValue = rt ''r1'' ''1'', Value = rt ''r1'' ''2''\<rparr>
     = ([Update Route (rt ''r1'' ''2'')],
        Returns (Some (Wrapped (Err ''boom'') ''failed to apply route'')))"
  by (simp add: Apply_def applyService_def applyRoute_def svc_def rt_def
      failing_cluster_def ServiceResourceType_def RouteResourceType_def ServiceT_def RouteT_def
      CreateOption_def DeleteOption_def UpdateOption_def)

text \<open>
  C9. \<open>Apply\<close> never reads \<open>OldValue\<close>: two records that differ in that field only lead to
  the same calls with the same arguments and to the same result.
\<close>

theorem Apply_ignores_OldValue:
  "Apply cl (e\<lparr>OldValue := v\<rparr>) = Apply cl e"
  by (simp add: Apply_def)

section \<open>Properties of Output\<close>

text \<open>
  The ways \<open>Output\<close> can return an error, one lemma for each branch of its switch.
\<close>

lemma Output_old_fails:
  assumes "Option e = UpdateOption" and "MarshalIndent L (OldValue e) [] [tab] = Inl err"
  shows "Output L e = Returns ([], Some err)"
  using assms by (simp add: Output_def options_distinct)

lemma Output_new_fails:
  assumes "Option e = UpdateOption" and "MarshalIndent L (OldValue e) [] [tab] = Inr r"
    and "MarshalIndent L (Value e) [] [tab] = Inl err"
  shows "Output L e = Returns ([], Some err)"
  using assms by (simp add: Output_def options_distinct Let_def)

lemma Output_create_no_error:
  assumes "Option e = CreateOption"
  shows "Output L e \<noteq> Returns (out, Some err)"
  using assms by (simp add: Output_def split: result.splits)

lemma Output_delete_no_error:
  assumes "Option e = DeleteOption"
  shows "Output L e \<noteq> Returns (out, Some err)"
  using assms by (simp add: Output_def options_distinct split: result.splits)

lemma Output_update_error:
  assumes "Option e = UpdateOption" and "Output L e = Returns (out, Some err)"
  shows "out = [] \<and> (MarshalIndent L (OldValue e) [] [tab] = Inl err
             \<or> (\<exists>r'. MarshalIndent L (OldValue e) [] [tab] = Inr r'
                   \<and> MarshalIndent L (Value e) [] [tab] = Inl err))"
proof (cases "MarshalIndent L (OldValue e) [] [tab]")
  case (Inl a)
  with assms show ?thesis by (simp add: Output_def options_distinct)
next
  case old: (Inr r')
  show ?thesis
  proof (cases "MarshalIndent L (Value e) [] [tab]")
    case (Inl a)
    with assms old show ?thesis by (simp add: Output_def options_distinct Let_def)
  next
    case (Inr l)
    with assms old have False
      by (simp add: Output_def options_distinct Let_def split: result.splits)
    then show ?thesis ..
  qed
qed

lemma Output_other_no_error:
  assumes "Option e \<noteq> CreateOption" and "Option e \<noteq> DeleteOption"
    and "Option e \<noteq> UpdateOption"
  shows "Output L e \<noteq> Returns (out, Some err)"
  using assms by (simp add: Output_def)

text \<open>
  C5. For a Create record whose \<open>Value\<close> is a resource (a struct or a pointer to one, with
  a string field \<open>Name\<close>), \<open>Output\<close> returns exactly the text \<open>creating <kind>: "<name>"\<close> with
  the name read from \<open>Value\<close>, and no error. The text returned has a line break exactly
  when the kind or the name has one: it is one line for a kind and a name without line
  breaks, and more than one line otherwise.
\<close>

theorem Output_create:
  assumes "Option e = CreateOption"
    and "Value e = PtrV T (Some fs) \<or> Value e = StructV T fs"
    and "map_of fs ''Name'' = Some (StrField n)"
  shows "Output L e =
           Returns (''creating '' @ ResourceType e @ '': '' @ [dquote] @ n @ [dquote], None)
         \<and> (\<forall>txt err. Output L e = Returns (txt, err) \<longrightarrow>
              (newline \<in> set txt \<longleftrightarrow> newline \<in> set (ResourceType e) \<or> newline \<in> set n))"
proof -
  have out: "Output L e =
           Returns (''creating '' @ ResourceType e @ '': '' @ [dquote] @ n @ [dquote], None)"
    using assms(1) getName_named [OF assms(2,3)] by (simp add: Output_def)
  have "newline \<in> set (''creating '' @ ResourceType e @ '': '' @ [dquote] @ n @ [dquote])
          \<longleftrightarrow> newline \<in> set (ResourceType e) \<or> newline \<in> set n"
    by auto
  with out show ?thesis by simp
qed

theorem Output_create_witness:
  "Option \<lparr>ResourceType = ''service'', Option = 0, OldValue = NilIface, Value = svc ''svc-a''\<rparr>
     = CreateOption
   \<and> map_of [(''ID'', StrField ''1''), (''Name'', StrField ''svc-a'')] ''Name''
     = Some (StrField ''svc-a'')
   \<and> Output stub_libs
       \<lparr>ResourceType = ''service'', Option = 0, OldValue = NilIface, Value = svc ''svc-a''\<rparr>
     = Returns (''creating service: '' @ [dquote] @ ''svc-a'' @ [dquote], None)
   \<and> newline \<notin> set ''service'' \<and> newline \<notin> set ''svc-a''
   \<and> newline \<notin> set (''creating service: '' @ [dquote] @ ''svc-a'' @ [dquote])"
proof -
  let ?e = "\<lparr>ResourceType = ''service'', Option = 0, OldValue = NilIface, Value = svc ''svc-a''\<rparr>"
  let ?fs = "[(''ID'', StrField ''1''), (''Name'', StrField ''svc-a'')]"
  have h1: "Option ?e = CreateOption" by (simp add: CreateOption_def)
  have h2: "Value ?e = PtrV ''types.Service'' (Some ?fs) \<or> Value ?e = StructV ''types.Service'' ?fs"
    by (simp add: svc_def)
  have h3: "map_of ?fs ''Name'' = Some (StrField ''svc-a'')" by simp
  note inst = Output_create [OF h1 h2 h3, of stub_libs]
  have out: "Output stub_libs ?e
               = Returns (''creating service: '' @ [dquote] @ ''svc-a'' @ [dquote], None)"
    using inst by simp
  have one: "newline \<in> set (''creating service: '' @ [dquote] @ ''svc-a'' @ [dquote])
               \<longleftrightarrow> newline \<in> set (ResourceType ?e) \<or> newline \<in> set ''svc-a''"
    using inst out by blast
  have k: "newline \<notin> set ''service''" and n: "newline \<notin> set ''svc-a''" by simp_all
  have "newline \<notin> set (''creating service: '' @ [dquote] @ ''svc-a'' @ [dquote])"
    using one k n by simp
  with h1 h3 out k n show ?thesis by (intro conjI)
qed

text \<open>
  A Create record whose name has a line break: the text returned has two lines.
\<close>

theorem Output_create_line_break_counterexample:
  "Output stub_libs
     \<lparr>ResourceType = ''service'', Option = 0, OldValue = NilIface,
        Value = svc (''a'' @ [newline] @ ''b'')\<rparr>
     = Returns (''creating service: '' @ [dquote] @ ''a'' @ [newline] @ ''b'' @ [dquote], None)
   \<and> newline \<in> set (''creating service: '' @ [dquote] @ ''a'' @ [newline] @ ''b'' @ [dquote])"
  by (simp add: Output_def getName_def svc_def CreateOption_def)

text \<open>
  C6. For a Delete record whose \<open>OldValue\<close> is a resource, \<open>Output\<close> returns the line
  \<open>deleting <kind>: "<name>"\<close> with the name read from \<open>OldValue\<close>, and no error.
\<close>

theorem Output_delete:
  assumes "Option e = DeleteOption"
    and "OldValue e = PtrV T (Some fs) \<or> OldValue e = StructV T fs"
    and "map_of fs ''Name'' = Some (StrField n)"
  shows "Output L e =
           Returns (''deleting '' @ ResourceType e @ '': '' @ [dquote] @ n @ [dquote], None)"
  using assms(1) getName_named [OF assms(2,3)]
  by (simp add: Output_def options_distinct)

theorem Output_delete_witness:
  "Option \<lparr>ResourceType = ''route'', Option = 1, OldValue = StructV ''types.Route'' [(''Name'', StrField ''r1'')], Value = NilIface\<rparr>
     = DeleteOption
   \<and> map_of [(''Name'', StrField ''r1'')] ''Name'' = Some (StrField ''r1'')
   \<and> Output stub_libs
       \<lparr>ResourceType = ''route'', Option = 1, OldValue = StructV ''types.Route'' [(''Name'', StrField ''r1'')], Value = NilIface\<rparr>
     = Returns (''deleting route: '' @ [dquote] @ ''r1'' @ [dquote], None)"
  using Output_delete
    [where e = "\<lparr>ResourceType = ''route'', Option = 1, OldValue = StructV ''types.Route'' [(''Name'', StrField ''r1'')], Value = NilIface\<rparr>"
       and T = "''types.Route''"
       and fs = "[(''Name'', StrField ''r1'')]"
       and n = "''r1''" and L = stub_libs]
  by (simp add: DeleteOption_def)

text \<open>
  C7. For an Update record, \<open>Output\<close> encodes \<open>OldValue\<close> and \<open>Value\<close> as indented text (empty
  prefix, a tab as indent), ends each text with a line break, computes the edits from the
  old text to the new one with \<open>myers.ComputeEdits\<close>, renders them as a unified diff of the
  old text with the labels \<open>remote\<close> and \<open>local\<close>, and returns the line
  \<open>updating <kind>: "<name>"\<close>, the name read from \<open>Value\<close>, a line break and the diff.
\<close>

theorem Output_update:
  assumes "Option e = UpdateOption"
    and "MarshalIndent L (OldValue e) [] [tab] = Inr remote"
    and "MarshalIndent L (Value e) [] [tab] = Inr local"
    and "Value e = PtrV T (Some fs) \<or> Value e = StructV T fs"
    and "map_of fs ''Name'' = Some (StrField n)"
  shows "Output L e =
           Returns (''updating '' @ ResourceType e @ '': '' @ [dquote] @ n @ [dquote] @ [newline]
                      @ Sprint L (ToUnified L ''remote'' ''local'' (remote @ [newline])
                          (ComputeEdits L (URIFromPath L ''remote'')
                             (remote @ [newline]) (local @ [newline]))),
                    None)"
  using assms(1,2,3) getName_named [OF assms(4,5)]
  by (simp add: Output_def options_distinct Let_def)

theorem Output_update_witness:
  "Option \<lparr>ResourceType = ''route'', Option = 2, OldValue = rt ''r1'' ''1'', Value = rt ''r1'' ''2''\<rparr>
     = UpdateOption
   \<and> MarshalIndent stub_libs (rt ''r1'' ''1'') [] [tab]
     = Inr (''{'' @ [newline, tab] @ ''ID: 7'' @ [newline, tab] @ ''Name: r1'' @ [newline, tab]
            @ ''UpstreamID: 1'' @ [newline] @ ''}'')
   \<and> MarshalIndent stub_libs (rt ''r1'' ''2'') [] [tab]
     = Inr (''{'' @ [newline, tab] @ ''ID: 7'' @ [newline, tab] @ ''Name: r1'' @ [newline, tab]
            @ ''UpstreamID: 2'' @ [newline] @ ''}'')
   \<and> Output stub_libs
       \<lparr>ResourceType = ''route'', Option = 2, OldValue = rt ''r1'' ''1'', Value = rt ''r1'' ''2''\<rparr>
     = Returns (''updating route: '' @ [dquote] @ ''r1'' @ [dquote] @ [newline]
         @ ''--- remote'' @ [newline] @ ''+++ local'' @ [newline]
         @ ''-{'' @ [newline, tab] @ ''ID: 7'' @ [newline, tab] @ ''Name: r1'' @ [newline, tab]
         @ ''UpstreamID: 1'' @ [newline] @ ''}'' @ [newline]
         @ ''+{'' @ [newline, tab] @ ''ID: 7'' @ [newline, tab] @ ''Name: r1'' @ [newline, tab]
         @ ''UpstreamID: 2'' @ [newline] @ ''}'' @ [newline], None)"
  using Output_update
    [where e = "\<lparr>ResourceType = ''route'', Option = 2, OldValue = rt ''r1'' ''1'', Value = rt ''r1'' ''2''\<rparr>"
       and L = stub_libs and T = "''types.Route''"
       and fs = "[(''ID'', StrField ''7''), (''Name'', StrField ''r1''), (''UpstreamID'', StrField ''2'')]"
       and n = "''r1''"
       and remote = "''{'' @ [newline, tab] @ ''ID: 7'' @ [newline, tab] @ ''Name: r1'' @ [newline, tab]
            @ ''UpstreamID: 1'' @ [newline] @ ''}''"
       and local = "''{'' @ [newline, tab] @ ''ID: 7'' @ [newline, tab] @ ''Name: r1'' @ [newline, tab]
            @ ''UpstreamID: 2'' @ [newline] @ ''}''"]
  by (simp add: UpdateOption_def rt_def stub_libs_def stub_edits_def)

text \<open>
  The diff of the spec on equal texts: every line is kept, so no line is near a change
  and there is no hunk. On texts that differ in one line it gives one hunk with the line
  deleted and the line inserted, among the lines of context.
\<close>

lemma lcs_diff_same: "lcs_diff xs xs = map (Pair Keep) xs"
  by (induction xs) auto

lemma near_change_no_change:
  assumes "\<forall>ed \<in> set es. \<not> is_change ed"
  shows "\<not> near_change es i"
  using assms by (auto simp: near_change_def list_ex_iff)

lemma runs_unmarked: "\<forall>m \<in> set ms. \<not> fst m \<Longrightarrow> runs ms = []"
  by (induction ms) auto

lemma hunks_no_change:
  assumes "\<forall>ed \<in> set es. \<not> is_change ed"
  shows "hunks es = []"
proof -
  have "\<forall>m \<in> set (mark es). \<not> fst m"
    using near_change_no_change [OF assms] by (auto simp: mark_def)
  then show ?thesis by (simp add: hunks_def runs_unmarked)
qed

lemma hunks_lcs_diff_same: "hunks (lcs_diff xs xs) = []"
  by (rule hunks_no_change) (auto simp: lcs_diff_same is_change_def)

lemma render_no_hunks: "Hunks u = [] \<Longrightarrow> render u = []"
  by (simp add: render_def)

lemma spec_diff_example:
  "render \<lparr>From = ''remote'', To = ''local'', Hunks =
      hunks (lcs_diff
        (split_lines (''{'' @ [newline, tab] @ ''name: r1'' @ [newline, tab]
           @ ''upstream_id: 1'' @ [newline] @ ''}'' @ [newline]))
        (split_lines (''{'' @ [newline, tab] @ ''name: r1'' @ [newline, tab]
           @ ''upstream_id: 2'' @ [newline] @ ''}'' @ [newline])))\<rparr>
   = ''--- remote'' @ [newline] @ ''+++ local'' @ [newline]
     @ ''@@ -1,4 +1,4 @@'' @ [newline]
     @ '' {'' @ [newline]
     @ '' '' @ [tab] @ ''name: r1'' @ [newline]
     @ ''-'' @ [tab] @ ''upstream_id: 1'' @ [newline]
     @ ''+'' @ [tab] @ ''upstream_id: 2'' @ [newline]
     @ '' }'' @ [newline]"
  by code_simp

text \<open>
  C4. For an Update record whose \<open>OldValue\<close> and \<open>Value\<close> are equal, with the diff of the
  spec: the unified diff that \<open>Output\<close> renders has no hunk, so the diff block has no hunk
  line (it is empty), and the first line still reports the name read from \<open>Value\<close>. This
  holds for every JSON encoder under which the value encodes.
\<close>

theorem Output_update_equal_values:
  assumes "Option e = UpdateOption"
    and "OldValue e = Value e"
    and "marshal (Value e) [] [tab] = Inr enc"
    and "Value e = PtrV T (Some fs) \<or> Value e = StructV T fs"
    and "map_of fs ''Name'' = Some (StrField n)"
  shows "Hunks (ToUnified (spec_libs marshal) ''remote'' ''local'' (enc @ [newline])
           (ComputeEdits (spec_libs marshal) (URIFromPath (spec_libs marshal) ''remote'')
              (enc @ [newline]) (enc @ [newline]))) = []
         \<and> Output (spec_libs marshal) e =
             Returns (''updating '' @ ResourceType e @ '': '' @ [dquote] @ n @ [dquote] @ [newline],
                      None)"
proof -
  have name: "getName ''Name'' (Value e) = Returns n"
    using assms(4,5) by (rule getName_named)
  have enc: "MarshalIndent (spec_libs marshal) (Value e) [] [tab] = Inr enc"
    using assms(3) by (simp add: spec_libs_def)
  have no_hunks: "hunks (lcs_diff (split_lines (enc @ [newline])) (split_lines (enc @ [newline]))) = []"
    by (rule hunks_lcs_diff_same)
  have first: "Hunks (ToUnified (spec_libs marshal) ''remote'' ''local'' (enc @ [newline])
           (ComputeEdits (spec_libs marshal) (URIFromPath (spec_libs marshal) ''remote'')
              (enc @ [newline]) (enc @ [newline]))) = []"
    using no_hunks by (simp add: spec_libs_def)
  have diff: "Sprint (spec_libs marshal) (ToUnified (spec_libs marshal) ''remote'' ''local''
           (enc @ [newline])
           (ComputeEdits (spec_libs marshal) (URIFromPath (spec_libs marshal) ''remote'')
              (enc @ [newline]) (enc @ [newline]))) = []"
    using no_hunks by (simp add: spec_libs_def render_def)
  have "Output (spec_libs marshal) e =
          Returns (''updating '' @ ResourceType e @ '': '' @ [dquote] @ n @ [dquote] @ [newline],
                   None)"
    using assms(1,2) enc name diff by (simp add: Output_def options_distinct Let_def)
  with first show ?thesis by (rule conjI)
qed

theorem Output_update_equal_values_witness:
  "Option \<lparr>ResourceType = ''route'', Option = 2, OldValue = rt ''r1'' ''1'', Value = rt ''r1'' ''1''\<rparr>
     = UpdateOption
   \<and> stub_marshal (rt ''r1'' ''1'') [] [tab]
     = Inr (''{'' @ [newline, tab] @ ''ID: 7'' @ [newline, tab] @ ''Name: r1'' @ [newline, tab]
            @ ''UpstreamID: 1'' @ [newline] @ ''}'')
   \<and> Output (spec_libs stub_marshal)
       \<lparr>ResourceType = ''route'', Option = 2, OldValue = rt ''r1'' ''1'', Value = rt ''r1'' ''1''\<rparr>
     = Returns (''updating route: '' @ [dquote] @ ''r1'' @ [dquote] @ [newline], None)"
proof -
  let ?e = "\<lparr>ResourceType = ''route'', Option = 2, OldValue = rt ''r1'' ''1'',
              Value = rt ''r1'' ''1''\<rparr>"
  let ?fs = "[(''ID'', StrField ''7''), (''Name'', StrField ''r1''),
              (''UpstreamID'', StrField ''1'')]"
  let ?enc = "''{'' @ [newline, tab] @ ''ID: 7'' @ [newline, tab] @ ''Name: r1'' @ [newline, tab]
            @ ''UpstreamID: 1'' @ [newline] @ ''}''"
  have h1: "Option ?e = UpdateOption" by (simp add: UpdateOption_def)
  have h2: "OldValue ?e = Value ?e" by simp
  have m: "stub_marshal (rt ''r1'' ''1'') [] [tab] = Inr ?enc" by (simp add: rt_def)
  have h3: "stub_marshal (Value ?e) [] [tab] = Inr ?enc" using m by simp
  have h4: "Value ?e = PtrV ''types.Route'' (Some ?fs) \<or> Value ?e = StructV ''types.Route'' ?fs"
    by (simp add: rt_def)
  have h5: "map_of ?fs ''Name'' = Some (StrField ''r1'')" by simp
  have "Output (spec_libs stub_marshal) ?e
          = Returns (''updating '' @ ResourceType ?e @ '': '' @ [dquote] @ ''r1'' @ [dquote]
                       @ [newline], None)"
    using Output_update_equal_values [where marshal = stub_marshal, OF h1 h2 h3 h4 h5]
    by (rule conjunct2)
  then have "Output (spec_libs stub_marshal) ?e
          = Returns (''updating route: '' @ [dquote] @ ''r1'' @ [dquote] @ [newline], None)"
    by simp
  with h1 m show ?thesis by (intro conjI)
qed

text \<open>
  C8. \<open>Output\<close> fails through the encoder only. For an Update record, the error of encoding
  \<open>OldValue\<close>, or else the error of encoding \<open>Value\<close>, is returned as it is, with the empty
  text. Whenever \<open>Output\<close> returns an error, the record is an Update and the error is one of
  these two. A Create or a Delete record never gives an error.
\<close>

theorem Output_error_only_from_serialization:
  "(Option e = UpdateOption \<and> MarshalIndent L (OldValue e) [] [tab] = Inl err
      \<longrightarrow> Output L e = Returns ([], Some err))
   \<and> (Option e = UpdateOption \<and> MarshalIndent L (OldValue e) [] [tab] = Inr r
        \<and> MarshalIndent L (Value e) [] [tab] = Inl err
      \<longrightarrow> Output L e = Returns ([], Some err))
   \<and> (Output L e = Returns (out, Some err')
      \<longrightarrow> Option e = UpdateOption \<and> out = []
          \<and> (MarshalIndent L (OldValue e) [] [tab] = Inl err'
             \<or> (\<exists>r'. MarshalIndent L (OldValue e) [] [tab] = Inr r'
                   \<and> MarshalIndent L (Value e) [] [tab] = Inl err')))
   \<and> (Option e = CreateOption \<or> Option e = DeleteOption
      \<longrightarrow> Output L e \<noteq> Returns (out, Some err'))"
proof (intro conjI impI)
  assume "Option e = UpdateOption \<and> MarshalIndent L (OldValue e) [] [tab] = Inl err"
  then show "Output L e = Returns ([], Some err)"
    using Output_old_fails by blast
next
  assume "Option e = UpdateOption \<and> MarshalIndent L (OldValue e) [] [tab] = Inr r
        \<and> MarshalIndent L (Value e) [] [tab] = Inl err"
  then show "Output L e = Returns ([], Some err)"
    using Output_new_fails by blast
next
  assume ret: "Output L e = Returns (out, Some err')"
  show "Option e = UpdateOption"
    using ret Output_create_no_error Output_delete_no_error Output_other_no_error by blast
  then show "out = []"
    and "MarshalIndent L (OldValue e) [] [tab] = Inl err'
             \<or> (\<exists>r'. MarshalIndent L (OldValue e) [] [tab] = Inr r'
                   \<and> MarshalIndent L (Value e) [] [tab] = Inl err')"
    using ret Output_update_error by blast+
next
  assume "Option e = CreateOption \<or> Option e = DeleteOption"
  then show "Output L e \<noteq> Returns (out, Some err')"
    using Output_create_no_error Output_delete_no_error by blast
qed

theorem Output_error_only_from_serialization_witness:
  "Option \<lparr>ResourceType = ''service'', Option = 2, OldValue = OtherV ''chan int'', Value = svc ''a''\<rparr>
     = UpdateOption
   \<and> MarshalIndent stub_libs (OtherV ''chan int'') [] [tab] = Inl (Err ''unsupported type: chan int'')
   \<and> Output stub_libs
     \<lparr>ResourceType = ''service'', Option = 2, OldValue = OtherV ''chan int'', Value = svc ''a''\<rparr>
     = Returns ([], Some (Err ''unsupported type: chan int''))
   \<and> MarshalIndent stub_libs (StructV ''types.Service'' []) [] [tab] = Inr (''{'' @ [newline] @ ''}'')
   \<and> MarshalIndent stub_libs (OtherV ''func()'') [] [tab] = Inl (Err ''unsupported type: func()'')
   \<and> Output stub_libs
     \<lparr>ResourceType = ''service'', Option = 2, OldValue = StructV ''types.Service'' [],
        Value = OtherV ''func()''\<rparr>
     = Returns ([], Some (Err ''unsupported type: func()''))
   \<and> Option \<lparr>ResourceType = ''service'', Option = 0, OldValue = OtherV ''chan int'', Value = svc ''a''\<rparr>
     = CreateOption
   \<and> Output stub_libs
     \<lparr>ResourceType = ''service'', Option = 0, OldValue = OtherV ''chan int'', Value = svc ''a''\<rparr>
     \<noteq> Returns ([], Some (Err ''unsupported type: chan int''))"
proof -
  let ?e1 = "\<lparr>ResourceType = ''service'', Option = 2, OldValue = OtherV ''chan int'',
               Value = svc ''a''\<rparr>"
  let ?e2 = "\<lparr>ResourceType = ''service'', Option = 2, OldValue = StructV ''types.Service'' [],
               Value = OtherV ''func()''\<rparr>"
  let ?e3 = "\<lparr>ResourceType = ''service'', Option = 0, OldValue = OtherV ''chan int'',
               Value = svc ''a''\<rparr>"
  have u1: "Option ?e1 = UpdateOption" and u2: "Option ?e2 = UpdateOption"
    and c3: "Option ?e3 = CreateOption"
    by (simp_all add: UpdateOption_def CreateOption_def)
  have m1: "MarshalIndent stub_libs (OldValue ?e1) [] [tab] = Inl (Err ''unsupported type: chan int'')"
    by (simp add: stub_libs_def)
  have m2: "MarshalIndent stub_libs (OldValue ?e2) [] [tab] = Inr (''{'' @ [newline] @ ''}'')"
    by (simp add: stub_libs_def)
  have m3: "MarshalIndent stub_libs (Value ?e2) [] [tab] = Inl (Err ''unsupported type: func()'')"
    by (simp add: stub_libs_def)
  note thm1 = Output_error_only_from_serialization
    [where e = ?e1 and L = stub_libs and err = "Err ''unsupported type: chan int''"]
  note thm2 = Output_error_only_from_serialization
    [where e = ?e2 and L = stub_libs and err = "Err ''unsupported type: func()''"
       and r = "''{'' @ [newline] @ ''}''"]
  note thm3 = Output_error_only_from_serialization
    [where e = ?e3 and L = stub_libs and out = "[]" and err' = "Err ''unsupported type: chan int''"]
  have o1: "Output stub_libs ?e1 = Returns ([], Some (Err ''unsupported type: chan int''))"
    using thm1 u1 m1 by blast
  have o2: "Output stub_libs ?e2 = Returns ([], Some (Err ''unsupported type: func()''))"
    using thm2 u2 m2 m3 by blast
  have o3: "Output stub_libs ?e3 \<noteq> Returns ([], Some (Err ''unsupported type: chan int''))"
    using thm3 c3 by blast
  have m1': "MarshalIndent stub_libs (OtherV ''chan int'') [] [tab]
               = Inl (Err ''unsupported type: chan int'')"
    and m2': "MarshalIndent stub_libs (StructV ''types.Service'' []) [] [tab]
               = Inr (''{'' @ [newline] @ ''}'')"
    and m3': "MarshalIndent stub_libs (OtherV ''func()'') [] [tab]
               = Inl (Err ''unsupported type: func()'')"
    using m1 m2 m3 by simp_all
  show ?thesis
    using u1 u2 c3 m1' m2' m3' o1 o2 o3 by (intro conjI)
qed

text \<open>
  C10. For a record whose option is none of Create, Delete and Update, \<open>Output\<close> returns
  the empty text and no error.
\<close>

theorem Output_unknown_option:
  assumes "Option e \<noteq> CreateOption" and "Option e \<noteq> DeleteOption"
    and "Option e \<noteq> UpdateOption"
  shows "Output L e = Returns ([], None)"
  using assms by (simp add: Output_def)

theorem Output_unknown_option_witness:
  "Option \<lparr>ResourceType = ''service'', Option = 3, OldValue = NilIface, Value = NilIface\<rparr> \<noteq> CreateOption
   \<and> Option \<lparr>ResourceType = ''service'', Option = 3, OldValue = NilIface, Value = NilIface\<rparr> \<noteq> DeleteOption
   \<and> Option \<lparr>ResourceType = ''service'', Option = 3, OldValue = NilIface, Value = NilIface\<rparr> \<noteq> UpdateOption
   \<and> Output stub_libs \<lparr>ResourceType = ''service'', Option = 3, OldValue = NilIface, Value = NilIface\<rparr>
     = Returns ([], None)
   \<and> Output stub_libs \<lparr>ResourceType = ''service'', Option = - 1, OldValue = NilIface, Value = NilIface\<rparr>
     = Returns ([], None)"
  using Output_unknown_option
    [of "\<lparr>ResourceType = ''service'', Option = 3, OldValue = NilIface, Value = NilIface\<rparr>" stub_libs]
    Output_unknown_option
    [of "\<lparr>ResourceType = ''service'', Option = - 1, OldValue = NilIface, Value = NilIface\<rparr>" stub_libs]
  by (simp add: CreateOption_def DeleteOption_def UpdateOption_def)

end
